theory Spec2Isabelle
  imports Complex_Main "HOL-Library.Word"
begin

section \<open>Data model of \<^verbatim>\<open>backend/main.py\<close>\<close>

text \<open>
  The module is a FastAPI adapter around an image-editing pipeline. The pipeline, the
  image library and the upload objects are external: they are the fields of an
  environment record, each returning either the exception it raised (\<open>Inl\<close>) or its
  value (\<open>Inr\<close>). The type variables are \<open>'m\<close> (a pipeline object), \<open>'u\<close> (an
  \<^verbatim>\<open>UploadFile\<close>) and \<open>'img\<close> (a PIL image).
\<close>

type_synonym bytes = "8 word list"

text \<open>A Python \<^verbatim>\<open>float\<close> is carried as its IEEE-754 binary64 bit pattern; the module
  does no arithmetic on it.\<close>

type_synonym pyfloat = "64 word"

text \<open>An exception caught by \<^verbatim>\<open>except Exception as e\<close>; the payload is \<^verbatim>\<open>str(e)\<close>.\<close>

datatype exn = Exception string

fun str :: "exn \<Rightarrow> string" where
  "str (Exception msg) = msg"

datatype dtype = bfloat16 | float32

text \<open>\<^verbatim>\<open>torch.Generator(device=d).manual_seed(s)\<close>: the generator is determined by its
  device and its seed.\<close>

record generator =
  gen_device :: string
  gen_seed :: int

text \<open>The parameters of the handler after FastAPI has bound the form (lines 44--51).
  Fields carry the prefix \<open>r_\<close>.\<close>

record 'u request =
  r_image :: 'u
  r_reference_image :: "'u option"
  r_edit_type :: string
  r_prompt :: string
  r_negative_prompt :: string
  r_num_inference_steps :: int
  r_true_cfg_scale :: pyfloat

text \<open>The multipart form as submitted: every field may be absent. Fields carry the
  prefix \<open>f_\<close>.\<close>

record 'u form =
  f_image :: "'u option"
  f_reference_image :: "'u option"
  f_edit_type :: "string option"
  f_prompt :: "string option"
  f_negative_prompt :: "string option"
  f_num_inference_steps :: "int option"
  f_true_cfg_scale :: "pyfloat option"

text \<open>The dictionary \<^verbatim>\<open>inputs\<close> (lines 62--77), one field per key, prefix \<open>i_\<close>. The key
  \<^verbatim>\<open>"reference_image"\<close> is present only when a reference image was uploaded.\<close>

record 'img inputs =
  i_image :: 'img
  i_prompt :: string
  i_negative_prompt :: string
  i_num_inference_steps :: int
  i_true_cfg_scale :: pyfloat
  i_generator :: generator
  i_reference_image :: "'img option"

datatype http_exception = HTTPException (status_code: nat) (detail: string)

datatype streaming_response =
  StreamingResponse (body: bytes) (media_type: string) (headers: "(string \<times> string) list")

text \<open>The external world: \<^verbatim>\<open>torch\<close>, \<^verbatim>\<open>diffusers\<close>, \<^verbatim>\<open>PIL\<close> and Starlette's uploads.\<close>

record ('m, 'u, 'img) env =
  cuda_is_available :: bool
  from_pretrained :: "string \<Rightarrow> dtype \<Rightarrow> exn + 'm"
  to_device :: "'m \<Rightarrow> string \<Rightarrow> exn + 'm"
  enable_model_cpu_offload :: "'m \<Rightarrow> exn + unit"
  upload_read :: "'u \<Rightarrow> exn + bytes"
  Image_open :: "bytes \<Rightarrow> exn + 'img"
  convert :: "'img \<Rightarrow> string \<Rightarrow> exn + 'img"
  pipeline_call :: "'m \<Rightarrow> 'img inputs \<Rightarrow> exn + 'img list"
  image_save :: "'img \<Rightarrow> string \<Rightarrow> exn + bytes"

text \<open>The module-level globals \<^verbatim>\<open>model\<close> and \<^verbatim>\<open>device\<close> (lines 24--25), and what the
  process has printed.\<close>

record 'm state =
  model :: "'m option"
  device :: string
  stdout :: "string list"

text \<open>What one call of the handler yields: the response (a raised \<^verbatim>\<open>HTTPException\<close> or
  the returned \<^verbatim>\<open>StreamingResponse\<close>), the globals afterwards, and the argument
  dictionaries with which the pipeline was invoked during the call.\<close>

record ('m, 'img) outcome =
  response :: "http_exception + streaming_response"
  new_state :: "'m state"
  model_calls :: "'img inputs list"

section \<open>The prompt table (lines 99--107)\<close>

definition prompts :: "(string \<times> string) list" where
  "prompts =
    [(''remove_bg'', ''Remove the background from this image, keeping only the main subject with a transparent background.''),
     (''replace_bg_auto'', ''Replace the background with an aesthetically pleasing, contextually appropriate background.''),
     (''replace_bg_custom'', ''Replace the background with the reference image, ensuring seamless integration.''),
     (''enhance'', ''Enhance the image quality, improve sharpness, color balance, and overall visual appeal.''),
     (''colorize'', ''Adjust colors, improve contrast, and enhance visual quality while maintaining original style.'')]"

text \<open>\<^verbatim>\<open>prompts.get(edit_type, "Enhance this image appropriately.")\<close>\<close>

definition get_prompt_for_edit_type :: "string \<Rightarrow> string" where
  "get_prompt_for_edit_type edit_type =
    (case map_of prompts edit_type of
       Some p \<Rightarrow> p
     | None \<Rightarrow> ''Enhance this image appropriately.'')"

section \<open>Startup (lines 23--41)\<close>

definition module_init :: "('m, 'u, 'img) env \<Rightarrow> 'm state" where
  "module_init e =
    (let d = (if cuda_is_available e then ''cuda'' else ''cpu'')
     in \<lparr>model = None, device = d, stdout = [''Using device: '' @ d]\<rparr>)"

text \<open>The \<^verbatim>\<open>except\<close> branch of \<^verbatim>\<open>load_model\<close> (lines 39--41).\<close>

definition load_failed :: "exn \<Rightarrow> 'm state \<Rightarrow> 'm state" where
  "load_failed x st =
    st\<lparr>model := None, stdout := stdout st @ [''Error loading model: '' @ str x]\<rparr>"

text \<open>\<^verbatim>\<open>load_model\<close> (lines 29--41). The global \<^verbatim>\<open>model\<close> is assigned twice inside the
  \<^verbatim>\<open>try\<close> body (lines 32 and 36), so an exception raised after the first assignment finds a
  pipeline in it, which the \<^verbatim>\<open>except\<close> branch replaces by \<^verbatim>\<open>None\<close>.\<close>

definition load_model :: "('m, 'u, 'img) env \<Rightarrow> 'm state \<Rightarrow> 'm state" where
  "load_model e st =
    (case from_pretrained e ''Qwen/Qwen-Image-Edit''
            (if device st = ''cuda'' then bfloat16 else float32) of
       Inl x \<Rightarrow> load_failed x st
     | Inr m0 \<Rightarrow>
        (let st1 = st\<lparr>model := Some m0\<rparr> in
         (case to_device e m0 (device st1) of
            Inl x \<Rightarrow> load_failed x st1
          | Inr m1 \<Rightarrow>
             (let st2 = st1\<lparr>model := Some m1\<rparr> in
              (case enable_model_cpu_offload e m1 of
                 Inl x \<Rightarrow> load_failed x st2
               | Inr u \<Rightarrow>
                  st2\<lparr>stdout := stdout st2 @
                    [''Qwen Image Edit model loaded successfully!'']\<rparr>)))))"

section \<open>The handler \<^verbatim>\<open>edit_image\<close> (lines 43--97)\<close>

text \<open>\<^verbatim>\<open>Image.open(io.BytesIO(await f.read())).convert("RGB")\<close> (lines 58--59 and 73--74).\<close>

definition read_rgb :: "('m, 'u, 'img) env \<Rightarrow> 'u \<Rightarrow> exn + 'img" where
  "read_rgb e f =
    (case upload_read e f of
       Inl x \<Rightarrow> Inl x
     | Inr bs \<Rightarrow>
        (case Image_open e bs of
           Inl x \<Rightarrow> Inl x
         | Inr im \<Rightarrow> convert e im ''RGB''))"

text \<open>Lines 57--77: the dictionary handed to the pipeline. \<^verbatim>\<open>prompt or default\<close> takes the
  default exactly when \<^verbatim>\<open>prompt\<close> is the empty string.\<close>

definition prepare_inputs ::
  "('m, 'u, 'img) env \<Rightarrow> 'm state \<Rightarrow> 'u request \<Rightarrow> exn + 'img inputs" where
  "prepare_inputs e st req =
    (case read_rgb e (r_image req) of
       Inl x \<Rightarrow> Inl x
     | Inr pil_image \<Rightarrow>
        (let inputs =
           \<lparr>i_image = pil_image,
            i_prompt = (if r_prompt req \<noteq> [] then r_prompt req
                        else get_prompt_for_edit_type (r_edit_type req)),
            i_negative_prompt = r_negative_prompt req,
            i_num_inference_steps = r_num_inference_steps req,
            i_true_cfg_scale = r_true_cfg_scale req,
            i_generator = \<lparr>gen_device = device st, gen_seed = 42\<rparr>,
            i_reference_image = None\<rparr>
         in (case r_reference_image req of
               None \<Rightarrow> Inr inputs
             | Some rf \<Rightarrow>
                (case read_rgb e rf of
                   Inl x \<Rightarrow> Inl x
                 | Inr ref_image \<Rightarrow> Inr (inputs\<lparr>i_reference_image := Some ref_image\<rparr>)))))"

text \<open>Lines 80--87: run the pipeline, take \<^verbatim>\<open>output.images[0]\<close> (an \<^verbatim>\<open>IndexError\<close> on an
  empty list) and save it as PNG.\<close>

definition generate :: "('m, 'u, 'img) env \<Rightarrow> 'm \<Rightarrow> 'img inputs \<Rightarrow> exn + bytes" where
  "generate e m inputs =
    (case pipeline_call e m inputs of
       Inl x \<Rightarrow> Inl x
     | Inr images \<Rightarrow>
        (case images of
           [] \<Rightarrow> Inl (Exception ''list index out of range'')
         | edited_image # rest \<Rightarrow> image_save e edited_image ''PNG''))"

text \<open>The \<^verbatim>\<open>except\<close> branch of the handler (lines 95--97).\<close>

definition edit_failed ::
  "exn \<Rightarrow> 'm state \<Rightarrow> 'img inputs list \<Rightarrow> ('m, 'img) outcome" where
  "edit_failed x st calls =
    \<lparr>response = Inl (HTTPException 500 (str x)),
     new_state = st\<lparr>stdout := stdout st @ [''Error during image editing: '' @ str x]\<rparr>,
     model_calls = calls\<rparr>"

definition edit_image ::
  "('m, 'u, 'img) env \<Rightarrow> 'm state \<Rightarrow> 'u request \<Rightarrow> ('m, 'img) outcome" where
  "edit_image e st req =
    (case model st of
       None \<Rightarrow>
        \<lparr>response = Inl (HTTPException 500 ''Model not loaded. Please check server logs.''),
         new_state = st, model_calls = []\<rparr>
     | Some m \<Rightarrow>
        (case prepare_inputs e st req of
           Inl x \<Rightarrow> edit_failed x st []
         | Inr inputs \<Rightarrow>
            (case generate e m inputs of
               Inl x \<Rightarrow> edit_failed x st [inputs]
             | Inr img_bytes \<Rightarrow>
                \<lparr>response = Inr (StreamingResponse img_bytes ''image/png''
                    [(''Content-Disposition'', ''attachment; filename=edited_image.png'')]),
                 new_state = st, model_calls = [inputs]\<rparr>)))"

section \<open>The application around the handler\<close>

text \<open>The routes the module registers: the one decorator \<^verbatim>\<open>@app.post("/edit-image")\<close>
  (line 43).\<close>

datatype http_method = GET | POST | PUT | DELETE | PATCH


text \<open>The binding of a submitted form to the handler's parameters, as the declarations of
  lines 45--51 ask of FastAPI: \<^verbatim>\<open>File(...)\<close> and \<^verbatim>\<open>Form(...)\<close> are required (the request is
  refused, with the names of the missing fields, before the handler runs),
  \<^verbatim>\<open>File(None)\<close> is optional and \<^verbatim>\<open>Form(d)\<close> defaults to \<^verbatim>\<open>d\<close>. FastAPI reads a form
  field whose value is the empty string as a field that is missing; \<open>form_value\<close> is that
  reading for the three string fields. The numeric fields are held as parsed values, so
  an absent one is the only case of a missing one. The default \<^verbatim>\<open>4.0\<close> is the binary64
  pattern \<open>0x4010000000000000\<close>.\<close>

definition form_value :: "string option \<Rightarrow> string option" where
  "form_value v = (case v of None \<Rightarrow> None | Some s \<Rightarrow> if s = [] then None else Some s)"

definition missing_fields :: "'u form \<Rightarrow> string list" where
  "missing_fields f =
    (if f_image f = None then [''image''] else []) @
    (if form_value (f_edit_type f) = None then [''edit_type''] else [])"

definition bind_params :: "'u form \<Rightarrow> string list + 'u request" where
  "bind_params f =
    (case f_image f of
       None \<Rightarrow> Inl (missing_fields f)
     | Some im \<Rightarrow>
        (case form_value (f_edit_type f) of
           None \<Rightarrow> Inl (missing_fields f)
         | Some et \<Rightarrow>
            Inr \<lparr>r_image = im,
                 r_reference_image = f_reference_image f,
                 r_edit_type = et,
                 r_prompt = (case form_value (f_prompt f) of None \<Rightarrow> [] | Some p \<Rightarrow> p),
                 r_negative_prompt =
                   (case form_value (f_negative_prompt f) of None \<Rightarrow> [] | Some p \<Rightarrow> p),
                 r_num_inference_steps =
                   (case f_num_inference_steps f of None \<Rightarrow> 50 | Some n \<Rightarrow> n),
                 r_true_cfg_scale =
                   (case f_true_cfg_scale f of None \<Rightarrow> 0x4010000000000000 | Some g \<Rightarrow> g)\<rparr>))"

text \<open>A run of requests through the handler, each in the globals its predecessor left.\<close>

fun serve ::
  "('m, 'u, 'img) env \<Rightarrow> 'm state \<Rightarrow> 'u request list \<Rightarrow> ('m, 'img) outcome list" where
  "serve e st [] = []"
| "serve e st (req # reqs) =
    (let out = edit_image e st req in out # serve e (new_state out) reqs)"

text \<open>The life of the process: the module body, the startup event, then the requests.\<close>

definition run_app ::
  "('m, 'u, 'img) env \<Rightarrow> 'u request list \<Rightarrow> ('m, 'img) outcome list" where
  "run_app e reqs = serve e (load_model e (module_init e)) reqs"

section \<open>A small concrete world\<close>

text \<open>Uploads are their bytes, an image is its mode and its pixel bytes, the pipeline
  returns the image it was given. An empty upload is not an image.\<close>

definition stub_env :: "(nat, bytes, string \<times> bytes) env" where
  "stub_env =
    \<lparr>cuda_is_available = False,
     from_pretrained = (\<lambda>name dt. Inr 0),
     to_device = (\<lambda>m d. Inr m),
     enable_model_cpu_offload = (\<lambda>m. Inr ()),
     upload_read = (\<lambda>u. Inr u),
     Image_open = (\<lambda>bs. if bs = [] then Inl (Exception ''cannot identify image file'')
                          else Inr (''RGBA'', bs)),
     convert = (\<lambda>im md. Inr (md, snd im)),
     pipeline_call = (\<lambda>m inp. Inr [i_image inp]),
     image_save = (\<lambda>im fmt. Inr (snd im))\<rparr>"

definition stub_request :: "bytes request" where
  "stub_request =
    \<lparr>r_image = [1, 2, 3], r_reference_image = None, r_edit_type = ''enhance'',
     r_prompt = [], r_negative_prompt = [], r_num_inference_steps = 50,
     r_true_cfg_scale = 0x4010000000000000\<rparr>"

definition stub_loaded :: "nat state" where
  "stub_loaded = \<lparr>model = Some 0, device = ''cpu'', stdout = []\<rparr>"

definition stub_unloaded :: "nat state" where
  "stub_unloaded = \<lparr>model = None, device = ''cpu'', stdout = []\<rparr>"

text \<open>A form that carries only the two required fields.\<close>

definition stub_form :: "bytes form" where
  "stub_form =
    \<lparr>f_image = Some [1, 2, 3], f_reference_image = None, f_edit_type = Some ''enhance'',
     f_prompt = None, f_negative_prompt = None, f_num_inference_steps = None,
     f_true_cfg_scale = None\<rparr>"

text \<open>The same world with a \<^verbatim>\<open>from_pretrained\<close> that raises.\<close>

definition offline_env :: "(nat, bytes, string \<times> bytes) env" where
  "offline_env = stub_env\<lparr>from_pretrained := (\<lambda>name dt. Inl (Exception ''offline''))\<rparr>"

text \<open>A request with a reference image and a prompt of its own.\<close>

definition stub_reference_request :: "bytes request" where
  "stub_reference_request =
    stub_request\<lparr>r_reference_image := Some [9], r_prompt := ''make it blue''\<rparr>"

section \<open>Facts about the steps of the handler\<close>

lemmas handler_defs = edit_image_def edit_failed_def

lemmas stub_defs = stub_env_def stub_request_def stub_loaded_def stub_unloaded_def

lemmas body_defs = prepare_inputs_def read_rgb_def generate_def

lemma edit_image_model: "model (new_state (edit_image e st req)) = model st"
  by (simp add: handler_defs split: option.splits sum.splits)

lemma edit_image_device: "device (new_state (edit_image e st req)) = device st"
  by (simp add: handler_defs split: option.splits sum.splits)

lemma prepare_inputs_device:
  "device st' = device st \<Longrightarrow> prepare_inputs e st' req = prepare_inputs e st req"
  by (simp add: prepare_inputs_def Let_def split: sum.splits option.splits)

lemma edit_image_globals_only:
  assumes "model st' = model st" and "device st' = device st"
  shows "response (edit_image e st' req) = response (edit_image e st req)"
    and "model_calls (edit_image e st' req) = model_calls (edit_image e st req)"
  using assms prepare_inputs_device [OF assms(2), of e req]
  by (simp_all add: handler_defs split: option.splits sum.splits)

lemma serve_frame:
  "out \<in> set (serve e st reqs) \<Longrightarrow>
     model (new_state out) = model st \<and> device (new_state out) = device st"
proof (induction reqs arbitrary: st)
  case Nil
  then show ?case by simp
next
  case (Cons req reqs)
  show ?case
  proof (cases "out = edit_image e st req")
    case True
    then show ?thesis by (simp add: edit_image_model edit_image_device)
  next
    case False
    with Cons.prems have "out \<in> set (serve e (new_state (edit_image e st req)) reqs)"
      by (simp add: Let_def)
    from Cons.IH [OF this] show ?thesis
      by (simp add: edit_image_model edit_image_device)
  qed
qed

lemma serve_length: "length (serve e st reqs) = length reqs"
  by (induction reqs arbitrary: st) (simp_all add: Let_def)

lemma model_calls_cases:
  "inp \<in> set (model_calls (edit_image e st req)) \<Longrightarrow>
     model st \<noteq> None \<and> prepare_inputs e st req = Inr inp"
  by (auto simp: handler_defs split: option.splits sum.splits)

lemma prepare_inputs_generator:
  "prepare_inputs e st req = Inr inp \<Longrightarrow>
     i_generator inp = \<lparr>gen_device = device st, gen_seed = 42\<rparr>"
  by (auto simp: prepare_inputs_def Let_def split: option.splits sum.splits)

lemma prepare_inputs_prompt:
  "prepare_inputs e st req = Inr inp \<Longrightarrow>
     i_prompt inp = (if r_prompt req \<noteq> [] then r_prompt req
                     else get_prompt_for_edit_type (r_edit_type req))"
  by (auto simp: prepare_inputs_def Let_def split: option.splits sum.splits)

lemma prepare_inputs_passthrough:
  "prepare_inputs e st req = Inr inp \<Longrightarrow>
     i_negative_prompt inp = r_negative_prompt req \<and>
     i_num_inference_steps inp = r_num_inference_steps req \<and>
     i_true_cfg_scale inp = r_true_cfg_scale req"
  by (auto simp: prepare_inputs_def Let_def split: option.splits sum.splits)

lemma prepare_inputs_images:
  "prepare_inputs e st req = Inr inp \<Longrightarrow>
     read_rgb e (r_image req) = Inr (i_image inp) \<and>
     (case r_reference_image req of
        None \<Rightarrow> i_reference_image inp = None
      | Some rf \<Rightarrow> \<exists>rgb. read_rgb e rf = Inr rgb \<and> i_reference_image inp = Some rgb)"
  by (auto simp: prepare_inputs_def Let_def split: option.splits sum.splits)

lemma read_rgb_Inr:
  "read_rgb e f = Inr rgb \<Longrightarrow>
     \<exists>bs im. upload_read e f = Inr bs \<and> Image_open e bs = Inr im \<and>
             convert e im ''RGB'' = Inr rgb"
  by (auto simp: read_rgb_def split: sum.splits)

lemma prepare_inputs_edit_type:
  "r_prompt req \<noteq> [] \<Longrightarrow>
     prepare_inputs e st (req\<lparr>r_edit_type := et\<rparr>) = prepare_inputs e st req"
  by (simp add: prepare_inputs_def Let_def split: sum.splits option.splits)

lemma edit_image_unloaded:
  "model st = None \<Longrightarrow>
     edit_image e st req =
       \<lparr>response = Inl (HTTPException 500 ''Model not loaded. Please check server logs.''),
        new_state = st, model_calls = []\<rparr>"
  by (simp add: edit_image_def)

lemma serve_unloaded:
  "model st = None \<Longrightarrow> out \<in> set (serve e st reqs) \<Longrightarrow>
     response out = Inl (HTTPException 500 ''Model not loaded. Please check server logs.'')
     \<and> model_calls out = [] \<and> model (new_state out) = None"
proof (induction reqs arbitrary: st)
  case Nil
  then show ?case by simp
next
  case (Cons req reqs)
  from Cons.prems(1) have step: "edit_image e st req =
       \<lparr>response = Inl (HTTPException 500 ''Model not loaded. Please check server logs.''),
        new_state = st, model_calls = []\<rparr>"
    by (rule edit_image_unloaded)
  show ?case
  proof (cases "out = edit_image e st req")
    case True
    with step Cons.prems(1) show ?thesis by simp
  next
    case False
    with Cons.prems(2) step have "out \<in> set (serve e st reqs)"
      by (simp add: Let_def)
    with Cons.IH Cons.prems(1) show ?thesis by simp
  qed
qed

lemma module_init_globals:
  "model (module_init e) = None"
  "device (module_init e) = (if cuda_is_available e then ''cuda'' else ''cpu'')"
  by (simp_all add: module_init_def Let_def)

lemma load_model_loaded:
  "from_pretrained e ''Qwen/Qwen-Image-Edit''
      (if device st = ''cuda'' then bfloat16 else float32) = Inr m0 \<Longrightarrow>
   to_device e m0 (device st) = Inr m1 \<Longrightarrow> enable_model_cpu_offload e m1 = Inr u \<Longrightarrow>
     model (load_model e st) = Some m1"
  by (simp add: load_model_def Let_def)

lemma load_model_raised:
  "from_pretrained e ''Qwen/Qwen-Image-Edit''
      (if device st = ''cuda'' then bfloat16 else float32) = Inl x
   \<or> (\<exists>m0. from_pretrained e ''Qwen/Qwen-Image-Edit''
          (if device st = ''cuda'' then bfloat16 else float32) = Inr m0 \<and>
        (to_device e m0 (device st) = Inl x
         \<or> (\<exists>m1. to_device e m0 (device st) = Inr m1 \<and>
               enable_model_cpu_offload e m1 = Inl x))) \<Longrightarrow>
     model (load_model e st) = None"
  by (auto simp: load_model_def load_failed_def Let_def)

lemma startup_dtype:
  "(if device (module_init e) = ''cuda'' then bfloat16 else float32) =
     (if cuda_is_available e then bfloat16 else float32)"
  by (simp add: module_init_def Let_def)

lemma read_rgb_ignores_loader:
  "read_rgb (e\<lparr>from_pretrained := fp, to_device := td, enable_model_cpu_offload := off\<rparr>) f
     = read_rgb e f"
  by (simp add: read_rgb_def cong: sum.case_cong)

lemma prepare_inputs_ignores_loader:
  "prepare_inputs (e\<lparr>from_pretrained := fp, to_device := td, enable_model_cpu_offload := off\<rparr>) st req
     = prepare_inputs e st req"
  unfolding prepare_inputs_def read_rgb_ignores_loader ..

lemma generate_ignores_loader:
  "generate (e\<lparr>from_pretrained := fp, to_device := td, enable_model_cpu_offload := off\<rparr>) m inp
     = generate e m inp"
  by (simp add: generate_def cong: sum.case_cong list.case_cong)

lemma edit_image_ignores_loader:
  "edit_image (e\<lparr>from_pretrained := fp, to_device := td, enable_model_cpu_offload := off\<rparr>) st req
     = edit_image e st req"
  unfolding edit_image_def prepare_inputs_ignores_loader generate_ignores_loader ..

lemma edit_image_prepare_failed:
  "model st = Some m \<Longrightarrow> prepare_inputs e st req = Inl x \<Longrightarrow>
     response (edit_image e st req) = Inl (HTTPException 500 (str x))"
  by (simp add: handler_defs)

lemma edit_image_generate_failed:
  "model st = Some m \<Longrightarrow> prepare_inputs e st req = Inr inp \<Longrightarrow> generate e m inp = Inl x \<Longrightarrow>
     response (edit_image e st req) = Inl (HTTPException 500 (str x))"
  by (simp add: handler_defs)

lemma edit_image_status:
  "response (edit_image e st req) = Inl h \<Longrightarrow> status_code h = 500"
  by (auto simp: handler_defs split: option.splits sum.splits)


lemma edit_image_Inr:
  "response (edit_image e st req) = Inr resp \<Longrightarrow>
     \<exists>m inp. model st = Some m \<and> prepare_inputs e st req = Inr inp \<and>
       generate e m inp = Inr (body resp) \<and>
       model_calls (edit_image e st req) = [inp] \<and>
       media_type resp = ''image/png'' \<and>
       headers resp = [(''Content-Disposition'', ''attachment; filename=edited_image.png'')]"
  by (auto simp: handler_defs split: option.splits sum.splits)

lemma generate_Inr:
  "generate e m inp = Inr png \<Longrightarrow>
     \<exists>im rest. pipeline_call e m inp = Inr (im # rest) \<and> image_save e im ''PNG'' = Inr png"
  by (auto simp: generate_def split: sum.splits list.splits)



lemma bind_params_Inr:
  "bind_params form = Inr req \<Longrightarrow>
     f_image form = Some (r_image req) \<and> f_edit_type form = Some (r_edit_type req) \<and>
     r_edit_type req \<noteq> [] \<and>
     r_reference_image req = f_reference_image form \<and>
     r_prompt req = (case f_prompt form of None \<Rightarrow> [] | Some p \<Rightarrow> p) \<and>
     r_negative_prompt req = (case f_negative_prompt form of None \<Rightarrow> [] | Some p \<Rightarrow> p) \<and>
     r_num_inference_steps req = (case f_num_inference_steps form of None \<Rightarrow> 50 | Some n \<Rightarrow> n) \<and>
     r_true_cfg_scale req =
       (case f_true_cfg_scale form of None \<Rightarrow> 0x4010000000000000 | Some g \<Rightarrow> g)"
  by (auto simp: bind_params_def form_value_def split: option.splits if_splits)


lemma bind_params_refuses:
  "f_image form = None \<or> f_edit_type form = None \<or> f_edit_type form = Some [] \<Longrightarrow>
     bind_params form = Inl (missing_fields form)"
  by (auto simp: bind_params_def form_value_def split: option.splits)

lemma stub_request_calls:
  "model_calls (edit_image stub_env stub_loaded stub_request) \<noteq> []"
  by (simp add: handler_defs body_defs stub_defs)

lemma stub_request_response:
  "response (edit_image stub_env stub_loaded stub_request) =
     Inr (StreamingResponse [1, 2, 3] ''image/png''
       [(''Content-Disposition'', ''attachment; filename=edited_image.png'')])"
  by (simp add: handler_defs body_defs stub_defs)

lemma stub_bad_upload:
  "prepare_inputs stub_env stub_loaded (stub_request\<lparr>r_image := []\<rparr>) =
     Inl (Exception ''cannot identify image file'')"
  by (simp add: body_defs stub_defs)

lemma offline_from_pretrained:
  "from_pretrained offline_env ''Qwen/Qwen-Image-Edit''
     (if cuda_is_available offline_env then bfloat16 else float32) = Inl (Exception ''offline'')"
  by (simp add: offline_env_def)

lemma stub_loader:
  "from_pretrained stub_env ''Qwen/Qwen-Image-Edit''
     (if cuda_is_available stub_env then bfloat16 else float32) = Inr 0"
  "to_device stub_env 0 (if cuda_is_available stub_env then ''cuda'' else ''cpu'') = Inr 0"
  "enable_model_cpu_offload stub_env 0 = Inr ()"
  by (simp_all add: stub_env_def)

lemma stub_reference_request_calls:
  "model_calls (edit_image stub_env stub_loaded stub_reference_request) \<noteq> []"
  by (simp add: handler_defs body_defs stub_defs stub_reference_request_def)

lemma stub_reference_request_reference:
  "i_reference_image (hd (model_calls (edit_image stub_env stub_loaded stub_reference_request)))
     = Some (''RGB'', [9])"
  by (simp add: handler_defs body_defs stub_defs stub_reference_request_def)

lemma stub_convert_mode: "\<forall>im md r. convert stub_env im md = Inr r \<longrightarrow> fst r = md"
  by (auto simp: stub_env_def)

lemma stub_bind: "bind_params stub_form = Inr stub_request"
  by (simp add: bind_params_def form_value_def stub_form_def stub_request_def)

section \<open>The prompt table is a lookup with a fallback\<close>

text \<open>
  C1. \<^verbatim>\<open>get_prompt_for_edit_type\<close> returns the fixed default prompt for each of the five
  keys \<^verbatim>\<open>remove_bg\<close>, \<^verbatim>\<open>replace_bg_auto\<close>, \<^verbatim>\<open>replace_bg_custom\<close>, \<^verbatim>\<open>enhance\<close> and
  \<^verbatim>\<open>colorize\<close>, and the fallback \<^verbatim>\<open>Enhance this image appropriately.\<close> for every other
  string.
\<close>

theorem get_prompt_for_edit_type_table:
  "get_prompt_for_edit_type ''remove_bg'' =
     ''Remove the background from this image, keeping only the main subject with a transparent background.''
   \<and> get_prompt_for_edit_type ''replace_bg_auto'' =
     ''Replace the background with an aesthetically pleasing, contextually appropriate background.''
   \<and> get_prompt_for_edit_type ''replace_bg_custom'' =
     ''Replace the background with the reference image, ensuring seamless integration.''
   \<and> get_prompt_for_edit_type ''enhance'' =
     ''Enhance the image quality, improve sharpness, color balance, and overall visual appeal.''
   \<and> get_prompt_for_edit_type ''colorize'' =
     ''Adjust colors, improve contrast, and enhance visual quality while maintaining original style.''
   \<and> (\<forall>s. s \<notin> {''remove_bg'', ''replace_bg_auto'', ''replace_bg_custom'', ''enhance'', ''colorize''}
         \<longrightarrow> get_prompt_for_edit_type s = ''Enhance this image appropriately.'')"
  by (simp add: get_prompt_for_edit_type_def prompts_def)

theorem get_prompt_for_edit_type_table_witness:
  "''sepia'' \<notin> {''remove_bg'', ''replace_bg_auto'', ''replace_bg_custom'', ''enhance'', ''colorize''}
   \<and> get_prompt_for_edit_type ''sepia'' = ''Enhance this image appropriately.''"
proof -
  have h: "''sepia'' \<notin> {''remove_bg'', ''replace_bg_auto'', ''replace_bg_custom'', ''enhance'', ''colorize''}"
    by simp
  from get_prompt_for_edit_type_table
  have "\<forall>s. s \<notin> {''remove_bg'', ''replace_bg_auto'', ''replace_bg_custom'', ''enhance'', ''colorize''}
         \<longrightarrow> get_prompt_for_edit_type s = ''Enhance this image appropriately.''"
    by (elim conjE)
  then have "get_prompt_for_edit_type ''sepia'' = ''Enhance this image appropriately.''"
    using h by simp
  with h show ?thesis by (rule conjI)
qed

section \<open>Failures of the handler\<close>

text \<open>
  C2 (as amended). Every failure inside the handler is reported as an \<^verbatim>\<open>HTTPException\<close> with
  status 500: when the global \<^verbatim>\<open>model\<close> is \<^verbatim>\<open>None\<close> the detail is the fixed text
  \<^verbatim>\<open>Model not loaded. Please check server logs.\<close>, and when an exception is raised while
  the uploads are read and decoded (\<open>prepare_inputs\<close>) or while the pipeline runs and its
  result is encoded (\<open>generate\<close>) the detail is \<^verbatim>\<open>str(e)\<close> of that exception. The payload
  therefore depends on the cause; only the status is the same.
\<close>

theorem edit_image_failures_500:
  "(model st = None \<longrightarrow>
      response (edit_image e st req) =
        Inl (HTTPException 500 ''Model not loaded. Please check server logs.''))
   \<and> (\<forall>m x. model st = Some m \<and> prepare_inputs e st req = Inl x \<longrightarrow>
         response (edit_image e st req) = Inl (HTTPException 500 (str x)))
   \<and> (\<forall>m inp x. model st = Some m \<and> prepare_inputs e st req = Inr inp \<and> generate e m inp = Inl x \<longrightarrow>
         response (edit_image e st req) = Inl (HTTPException 500 (str x)))
   \<and> (\<forall>h. response (edit_image e st req) = Inl h \<longrightarrow> status_code h = 500)"
  using edit_image_prepare_failed [of st _ e req] edit_image_generate_failed [of st _ e req]
    edit_image_status [of e st req]
  by (simp add: edit_image_unloaded)

theorem edit_image_failures_500_witness:
  "model stub_loaded = Some 0
   \<and> prepare_inputs stub_env stub_loaded (stub_request\<lparr>r_image := []\<rparr>) =
       Inl (Exception ''cannot identify image file'')
   \<and> response (edit_image stub_env stub_loaded (stub_request\<lparr>r_image := []\<rparr>)) =
       Inl (HTTPException 500 ''cannot identify image file'')"
proof -
  have m: "model stub_loaded = Some 0" by (simp add: stub_loaded_def)
  note p = stub_bad_upload
  from edit_image_failures_500 [of stub_loaded stub_env "stub_request\<lparr>r_image := []\<rparr>"]
  have "\<forall>m x. model stub_loaded = Some m \<and>
          prepare_inputs stub_env stub_loaded (stub_request\<lparr>r_image := []\<rparr>) = Inl x \<longrightarrow>
        response (edit_image stub_env stub_loaded (stub_request\<lparr>r_image := []\<rparr>)) =
          Inl (HTTPException 500 (str x))"
    by (elim conjE)
  from this [rule_format, OF conjI [OF m p]] m p show ?thesis by simp
qed

text \<open>
  The payload is not the same for every cause: an unloaded model and an upload that is not
  an image both give status 500, with different details.
\<close>

theorem error_detail_depends_on_cause:
  "response (edit_image stub_env stub_unloaded stub_request) =
     Inl (HTTPException 500 ''Model not loaded. Please check server logs.'')
   \<and> response (edit_image stub_env stub_loaded (stub_request\<lparr>r_image := []\<rparr>)) =
     Inl (HTTPException 500 ''cannot identify image file'')
   \<and> response (edit_image stub_env stub_unloaded stub_request) \<noteq>
     response (edit_image stub_env stub_loaded (stub_request\<lparr>r_image := []\<rparr>))"
proof -
  have a: "response (edit_image stub_env stub_unloaded stub_request) =
     Inl (HTTPException 500 ''Model not loaded. Please check server logs.'')"
    by (simp add: edit_image_def stub_unloaded_def)
  have "model stub_loaded = Some 0" by (simp add: stub_loaded_def)
  from edit_image_prepare_failed [OF this stub_bad_upload]
  have b: "response (edit_image stub_env stub_loaded (stub_request\<lparr>r_image := []\<rparr>)) =
     Inl (HTTPException 500 ''cannot identify image file'')"
    by simp
  show ?thesis by (simp add: a b)
qed

section \<open>The seed of the generator\<close>

text \<open>
  C3. In every call of the pipeline, over any run of requests, the generator passed is
  \<^verbatim>\<open>torch.Generator(device=device).manual_seed(42)\<close>: its seed is the constant 42 and its
  device the process-wide \<^verbatim>\<open>device\<close>, whatever the form fields and the image are, so it
  is the same for any two requests.
\<close>

theorem generator_seed_fixed:
  "\<forall>out \<in> set (serve e st reqs). \<forall>inp \<in> set (model_calls out).
      i_generator inp = \<lparr>gen_device = device st, gen_seed = 42\<rparr> \<and> gen_seed (i_generator inp) = 42"
proof (intro ballI)
  fix out inp
  assume o: "out \<in> set (serve e st reqs)" and i: "inp \<in> set (model_calls out)"
  show "i_generator inp = \<lparr>gen_device = device st, gen_seed = 42\<rparr> \<and> gen_seed (i_generator inp) = 42"
    using o i
  proof (induction reqs arbitrary: st)
    case Nil
    then show ?case by simp
  next
    case (Cons req reqs)
    show ?case
    proof (cases "out = edit_image e st req")
      case True
      with Cons.prems(2) have "prepare_inputs e st req = Inr inp"
        by (simp add: model_calls_cases)
      then show ?thesis by (simp add: prepare_inputs_generator)
    next
      case False
      with Cons.prems(1) have "out \<in> set (serve e (new_state (edit_image e st req)) reqs)"
        by (simp add: Let_def)
      from Cons.IH [OF this Cons.prems(2)] show ?thesis by (simp add: edit_image_device)
    qed
  qed
qed

theorem generator_seed_fixed_witness:
  "hd (model_calls (edit_image stub_env stub_loaded stub_request))
     \<in> set (model_calls (edit_image stub_env stub_loaded stub_request))
   \<and> i_generator (hd (model_calls (edit_image stub_env stub_loaded stub_request))) =
       \<lparr>gen_device = ''cpu'', gen_seed = 42\<rparr>"
proof -
  have o: "edit_image stub_env stub_loaded stub_request
             \<in> set (serve stub_env stub_loaded [stub_request])"
    by (simp add: Let_def)
  have i: "hd (model_calls (edit_image stub_env stub_loaded stub_request))
     \<in> set (model_calls (edit_image stub_env stub_loaded stub_request))"
    using stub_request_calls by (rule hd_in_set)
  from generator_seed_fixed [of stub_env stub_loaded "[stub_request]", THEN bspec, OF o,
      THEN bspec, OF i] i
  show ?thesis by (simp add: stub_loaded_def)
qed

section \<open>The endpoint\<close>



section \<open>The successful response\<close>

text \<open>
  C5. Whenever the handler returns a response, the pipeline was called once, its output
  had a first image, the body of the response is that first image saved in format
  \<^verbatim>\<open>PNG\<close>, the media type is \<^verbatim>\<open>image/png\<close> and the only header is
  \<^verbatim>\<open>Content-Disposition: attachment; filename=edited_image.png\<close>.
\<close>

theorem edit_image_success_png:
  "response (edit_image e st req) = Inr resp \<Longrightarrow>
     \<exists>m inp im rest. model st = Some m \<and> model_calls (edit_image e st req) = [inp] \<and>
       pipeline_call e m inp = Inr (im # rest) \<and>
       image_save e im ''PNG'' = Inr (body resp) \<and>
       media_type resp = ''image/png'' \<and>
       headers resp = [(''Content-Disposition'', ''attachment; filename=edited_image.png'')]"
proof -
  assume "response (edit_image e st req) = Inr resp"
  from edit_image_Inr [OF this] obtain m inp where
    a: "model st = Some m" "model_calls (edit_image e st req) = [inp]"
       "media_type resp = ''image/png''"
       "headers resp = [(''Content-Disposition'', ''attachment; filename=edited_image.png'')]"
    and g: "generate e m inp = Inr (body resp)"
    by blast
  from generate_Inr [OF g] obtain im rest where
    "pipeline_call e m inp = Inr (im # rest)" "image_save e im ''PNG'' = Inr (body resp)"
    by blast
  with a show ?thesis by blast
qed

theorem edit_image_success_png_witness:
  "response (edit_image stub_env stub_loaded stub_request) =
     Inr (StreamingResponse [1, 2, 3] ''image/png''
       [(''Content-Disposition'', ''attachment; filename=edited_image.png'')])
   \<and> (\<exists>m inp im rest. model stub_loaded = Some m \<and>
         model_calls (edit_image stub_env stub_loaded stub_request) = [inp] \<and>
         pipeline_call stub_env m inp = Inr (im # rest) \<and>
         image_save stub_env im ''PNG'' = Inr [1, 2, 3])"
proof -
  note r = stub_request_response
  from edit_image_success_png [OF r] r show ?thesis by simp
qed

section \<open>The handler leaves the globals alone\<close>

text \<open>
  C6. Handling a request, whether it succeeds or fails, leaves the globals \<^verbatim>\<open>model\<close> and
  \<^verbatim>\<open>device\<close> as they were, also over any run of requests; hence the response to a request
  and the way the pipeline is called for it are the same after another request as before it.
  (What the process has printed does grow on a failure.)
\<close>

theorem edit_image_stateless:
  "model (new_state (edit_image e st req)) = model st
   \<and> device (new_state (edit_image e st req)) = device st
   \<and> response (edit_image e (new_state (edit_image e st req)) req') = response (edit_image e st req')
   \<and> model_calls (edit_image e (new_state (edit_image e st req)) req') = model_calls (edit_image e st req')
   \<and> (\<forall>out \<in> set (serve e st reqs).
         model (new_state out) = model st \<and> device (new_state out) = device st)"
proof -
  have m: "model (new_state (edit_image e st req)) = model st" by (rule edit_image_model)
  have d: "device (new_state (edit_image e st req)) = device st" by (rule edit_image_device)
  from edit_image_globals_only [OF m d] serve_frame m d show ?thesis by blast
qed

theorem edit_image_stateless_witness:
  "edit_image stub_env stub_loaded (stub_request\<lparr>r_image := []\<rparr>)
     \<in> set (serve stub_env stub_loaded [stub_request\<lparr>r_image := []\<rparr>])
   \<and> model (new_state (edit_image stub_env stub_loaded (stub_request\<lparr>r_image := []\<rparr>))) = Some 0
   \<and> device (new_state (edit_image stub_env stub_loaded (stub_request\<lparr>r_image := []\<rparr>))) = ''cpu''"
proof -
  have o: "edit_image stub_env stub_loaded (stub_request\<lparr>r_image := []\<rparr>)
     \<in> set (serve stub_env stub_loaded [stub_request\<lparr>r_image := []\<rparr>])"
    by (simp add: Let_def)
  note edit_image_stateless [of stub_env stub_loaded _ _ "[stub_request\<lparr>r_image := []\<rparr>]",
      THEN conjunct2, THEN conjunct2, THEN conjunct2, THEN conjunct2]
  then have "\<forall>out \<in> set (serve stub_env stub_loaded [stub_request\<lparr>r_image := []\<rparr>]).
         model (new_state out) = model stub_loaded \<and> device (new_state out) = device stub_loaded" .
  from this [THEN bspec, OF o] o show ?thesis by (simp add: stub_loaded_def)
qed

section \<open>The model is loaded at startup only\<close>

text \<open>
  C7. The process loads the model once, in the startup event, before any request: when
  \<^verbatim>\<open>from_pretrained\<close>, \<^verbatim>\<open>to(device)\<close> and \<^verbatim>\<open>enable_model_cpu_offload\<close> succeed, the pipeline
  that \<^verbatim>\<open>to(device)\<close> returned is in \<^verbatim>\<open>model\<close> after startup and stays there after every
  request. If one of the three raises, \<^verbatim>\<open>model\<close> is \<^verbatim>\<open>None\<close> after startup, every request
  of the run is answered with status 500 and \<^verbatim>\<open>Model not loaded. Please check server logs.\<close>,
  the pipeline is never called and \<^verbatim>\<open>model\<close> stays \<^verbatim>\<open>None\<close>. Every request gets one
  outcome, and the handler does not depend on the three loading operations at all, so
  it cannot load the model again.
\<close>

theorem load_model_once:
  "(\<forall>m0 m1.
      from_pretrained e ''Qwen/Qwen-Image-Edit''
        (if cuda_is_available e then bfloat16 else float32) = Inr m0
      \<and> to_device e m0 (if cuda_is_available e then ''cuda'' else ''cpu'') = Inr m1
      \<and> enable_model_cpu_offload e m1 = Inr () \<longrightarrow>
      model (load_model e (module_init e)) = Some m1
      \<and> (\<forall>out \<in> set (run_app e reqs). model (new_state out) = Some m1))
   \<and> (\<forall>x.
      (from_pretrained e ''Qwen/Qwen-Image-Edit''
         (if cuda_is_available e then bfloat16 else float32) = Inl x
       \<or> (\<exists>m0. from_pretrained e ''Qwen/Qwen-Image-Edit''
              (if cuda_is_available e then bfloat16 else float32) = Inr m0 \<and>
            (to_device e m0 (if cuda_is_available e then ''cuda'' else ''cpu'') = Inl x
             \<or> (\<exists>m1. to_device e m0 (if cuda_is_available e then ''cuda'' else ''cpu'') = Inr m1 \<and>
                   enable_model_cpu_offload e m1 = Inl x)))) \<longrightarrow>
      model (load_model e (module_init e)) = None
      \<and> (\<forall>out \<in> set (run_app e reqs).
           response out = Inl (HTTPException 500 ''Model not loaded. Please check server logs.'')
           \<and> model_calls out = [] \<and> model (new_state out) = None))
   \<and> length (run_app e reqs) = length reqs
   \<and> edit_image (e\<lparr>from_pretrained := fp, to_device := td, enable_model_cpu_offload := off\<rparr>) st req
       = edit_image e st req"
proof (intro conjI allI impI ballI)
  fix m0 m1
  assume a: "from_pretrained e ''Qwen/Qwen-Image-Edit''
        (if cuda_is_available e then bfloat16 else float32) = Inr m0
      \<and> to_device e m0 (if cuda_is_available e then ''cuda'' else ''cpu'') = Inr m1
      \<and> enable_model_cpu_offload e m1 = Inr ()"
  then have "from_pretrained e ''Qwen/Qwen-Image-Edit''
        (if device (module_init e) = ''cuda'' then bfloat16 else float32) = Inr m0"
    and "to_device e m0 (device (module_init e)) = Inr m1"
    and "enable_model_cpu_offload e m1 = Inr ()"
    by (cases "cuda_is_available e"; simp add: startup_dtype module_init_globals)+
  then show l: "model (load_model e (module_init e)) = Some m1" by (rule load_model_loaded)
  fix out
  assume "out \<in> set (run_app e reqs)"
  then have "out \<in> set (serve e (load_model e (module_init e)) reqs)" by (simp add: run_app_def)
  from serve_frame [OF this] l show "model (new_state out) = Some m1" by simp
next
  fix x
  assume "from_pretrained e ''Qwen/Qwen-Image-Edit''
         (if cuda_is_available e then bfloat16 else float32) = Inl x
       \<or> (\<exists>m0. from_pretrained e ''Qwen/Qwen-Image-Edit''
              (if cuda_is_available e then bfloat16 else float32) = Inr m0 \<and>
            (to_device e m0 (if cuda_is_available e then ''cuda'' else ''cpu'') = Inl x
             \<or> (\<exists>m1. to_device e m0 (if cuda_is_available e then ''cuda'' else ''cpu'') = Inr m1 \<and>
                   enable_model_cpu_offload e m1 = Inl x)))"
  then have "from_pretrained e ''Qwen/Qwen-Image-Edit''
      (if device (module_init e) = ''cuda'' then bfloat16 else float32) = Inl x
   \<or> (\<exists>m0. from_pretrained e ''Qwen/Qwen-Image-Edit''
          (if device (module_init e) = ''cuda'' then bfloat16 else float32) = Inr m0 \<and>
        (to_device e m0 (device (module_init e)) = Inl x
         \<or> (\<exists>m1. to_device e m0 (device (module_init e)) = Inr m1 \<and>
               enable_model_cpu_offload e m1 = Inl x)))"
    by (cases "cuda_is_available e"; simp add: startup_dtype module_init_globals)
  then show n: "model (load_model e (module_init e)) = None" by (rule load_model_raised)
  fix out
  assume "out \<in> set (run_app e reqs)"
  then have o: "out \<in> set (serve e (load_model e (module_init e)) reqs)"
    by (simp add: run_app_def)
  from serve_unloaded [OF n o]
  show "response out = Inl (HTTPException 500 ''Model not loaded. Please check server logs.'')"
    and "model_calls out = []" and "model (new_state out) = None"
    by simp_all
next
  show "length (run_app e reqs) = length reqs" by (simp add: run_app_def serve_length)
next
  show "edit_image (e\<lparr>from_pretrained := fp, to_device := td, enable_model_cpu_offload := off\<rparr>) st req
       = edit_image e st req" by (rule edit_image_ignores_loader)
qed

theorem load_model_once_witness:
  "model (load_model stub_env (module_init stub_env)) = Some 0
   \<and> model (new_state (last (run_app stub_env [stub_request, stub_request]))) = Some 0
   \<and> model (load_model offline_env (module_init offline_env)) = None
   \<and> response (hd (run_app offline_env [stub_request, stub_request])) =
       Inl (HTTPException 500 ''Model not loaded. Please check server logs.'')
   \<and> response (last (run_app offline_env [stub_request, stub_request])) =
       Inl (HTTPException 500 ''Model not loaded. Please check server logs.'')"
proof -
  have "run_app stub_env [stub_request, stub_request] \<noteq> []"
    by (simp add: run_app_def Let_def)
  then have s: "last (run_app stub_env [stub_request, stub_request])
      \<in> set (run_app stub_env [stub_request, stub_request])"
    by simp
  have "run_app offline_env [stub_request, stub_request] \<noteq> []"
    by (simp add: run_app_def Let_def)
  then have h: "hd (run_app offline_env [stub_request, stub_request])
      \<in> set (run_app offline_env [stub_request, stub_request])"
    and t: "last (run_app offline_env [stub_request, stub_request])
      \<in> set (run_app offline_env [stub_request, stub_request])"
    by simp_all
  note ok = load_model_once [of stub_env "[stub_request, stub_request]", THEN conjunct1,
      THEN spec, THEN spec, THEN mp, OF conjI [OF stub_loader(1) conjI [OF stub_loader(2, 3)]]]
  note bad = load_model_once [of offline_env "[stub_request, stub_request]", THEN conjunct2,
      THEN conjunct1, THEN spec, THEN mp, OF disjI1 [OF offline_from_pretrained]]
  from ok [THEN conjunct1] ok [THEN conjunct2, THEN bspec, OF s]
    bad [THEN conjunct1] bad [THEN conjunct2, THEN bspec, OF h]
    bad [THEN conjunct2, THEN bspec, OF t]
  show ?thesis by simp
qed

section \<open>Which prompt the pipeline receives\<close>

text \<open>
  C8. In every call of the pipeline the prompt is the default of
  \<^verbatim>\<open>get_prompt_for_edit_type\<close> for the request's edit type when the \<^verbatim>\<open>prompt\<close> field is the
  empty string, and the \<^verbatim>\<open>prompt\<close> field itself when it is not empty; in the second case
  the edit type has no effect on the outcome of the request.
\<close>

theorem prompt_precedence:
  "(\<forall>inp \<in> set (model_calls (edit_image e st req)).
      (r_prompt req = [] \<longrightarrow> i_prompt inp = get_prompt_for_edit_type (r_edit_type req))
      \<and> (r_prompt req \<noteq> [] \<longrightarrow> i_prompt inp = r_prompt req))
   \<and> (r_prompt req \<noteq> [] \<longrightarrow> edit_image e st (req\<lparr>r_edit_type := et\<rparr>) = edit_image e st req)"
proof (intro conjI ballI impI)
  fix inp assume "inp \<in> set (model_calls (edit_image e st req))"
  then have p: "prepare_inputs e st req = Inr inp" by (simp add: model_calls_cases)
  { assume "r_prompt req = []"
    with prepare_inputs_prompt [OF p]
    show "i_prompt inp = get_prompt_for_edit_type (r_edit_type req)" by simp }
  { assume "r_prompt req \<noteq> []"
    with prepare_inputs_prompt [OF p]
    show "i_prompt inp = r_prompt req" by simp }
next
  assume "r_prompt req \<noteq> []"
  then have "prepare_inputs e st (req\<lparr>r_edit_type := et\<rparr>) = prepare_inputs e st req"
    by (rule prepare_inputs_edit_type)
  then show "edit_image e st (req\<lparr>r_edit_type := et\<rparr>) = edit_image e st req"
    by (simp add: edit_image_def cong: option.case_cong)
qed

theorem prompt_precedence_witness:
  "r_prompt stub_request = [] \<and> r_prompt stub_reference_request \<noteq> []
   \<and> i_prompt (hd (model_calls (edit_image stub_env stub_loaded stub_request))) =
       get_prompt_for_edit_type ''enhance''
   \<and> i_prompt (hd (model_calls (edit_image stub_env stub_loaded stub_reference_request))) =
       ''make it blue''
   \<and> edit_image stub_env stub_loaded (stub_reference_request\<lparr>r_edit_type := ''colorize''\<rparr>) =
       edit_image stub_env stub_loaded stub_reference_request"
proof -
  have e: "r_prompt stub_request = []" "r_edit_type stub_request = ''enhance''"
    by (simp_all add: stub_request_def)
  have n: "r_prompt stub_reference_request \<noteq> []" "r_prompt stub_reference_request = ''make it blue''"
    by (simp_all add: stub_reference_request_def)
  have i1: "hd (model_calls (edit_image stub_env stub_loaded stub_request))
     \<in> set (model_calls (edit_image stub_env stub_loaded stub_request))"
    using stub_request_calls by (rule hd_in_set)
  have i2: "hd (model_calls (edit_image stub_env stub_loaded stub_reference_request))
     \<in> set (model_calls (edit_image stub_env stub_loaded stub_reference_request))"
    using stub_reference_request_calls by (rule hd_in_set)
  note a = prompt_precedence [of stub_env stub_loaded stub_request, THEN conjunct1, THEN bspec, OF i1]
  note b = prompt_precedence [of stub_env stub_loaded stub_reference_request, THEN conjunct1,
      THEN bspec, OF i2]
  note c = prompt_precedence [of stub_env stub_loaded stub_reference_request "''colorize''",
      THEN conjunct2, rule_format, OF n(1)]
  from a b c e n show ?thesis by simp
qed

section \<open>Uploads are converted to RGB\<close>

text \<open>
  C9. In every call of the pipeline, the image passed is the result of
  \<^verbatim>\<open>convert("RGB")\<close> on the opened main upload, and the reference image, when one was
  uploaded, is the result of \<^verbatim>\<open>convert("RGB")\<close> on the opened reference upload (the key is
  absent otherwise). So, for an image library whose \<^verbatim>\<open>convert\<close> returns an image of the mode
  asked for, every image that reaches the pipeline has mode \<^verbatim>\<open>RGB\<close>.
\<close>

theorem uploads_converted_to_rgb:
  "\<forall>inp \<in> set (model_calls (edit_image e st req)).
     (\<exists>bs im. upload_read e (r_image req) = Inr bs \<and> Image_open e bs = Inr im \<and>
              convert e im ''RGB'' = Inr (i_image inp))
     \<and> (case r_reference_image req of
          None \<Rightarrow> i_reference_image inp = None
        | Some rf \<Rightarrow>
            \<exists>bs im rgb. upload_read e rf = Inr bs \<and> Image_open e bs = Inr im \<and>
              convert e im ''RGB'' = Inr rgb \<and> i_reference_image inp = Some rgb)
     \<and> ((\<forall>im md r. convert e im md = Inr r \<longrightarrow> mode_of r = md) \<longrightarrow>
          mode_of (i_image inp) = ''RGB'' \<and>
          (\<forall>rgb. i_reference_image inp = Some rgb \<longrightarrow> mode_of rgb = ''RGB''))"
proof
  fix inp assume "inp \<in> set (model_calls (edit_image e st req))"
  then have p: "prepare_inputs e st req = Inr inp" by (simp add: model_calls_cases)
  from prepare_inputs_images [OF p]
  have main: "read_rgb e (r_image req) = Inr (i_image inp)"
    and ref: "(case r_reference_image req of
        None \<Rightarrow> i_reference_image inp = None
      | Some rf \<Rightarrow> \<exists>rgb. read_rgb e rf = Inr rgb \<and> i_reference_image inp = Some rgb)"
    by simp_all
  from read_rgb_Inr [OF main]
  have c1: "\<exists>bs im. upload_read e (r_image req) = Inr bs \<and> Image_open e bs = Inr im \<and>
              convert e im ''RGB'' = Inr (i_image inp)" .
  have c2: "(case r_reference_image req of
          None \<Rightarrow> i_reference_image inp = None
        | Some rf \<Rightarrow>
            \<exists>bs im rgb. upload_read e rf = Inr bs \<and> Image_open e bs = Inr im \<and>
              convert e im ''RGB'' = Inr rgb \<and> i_reference_image inp = Some rgb)"
  proof (cases "r_reference_image req")
    case None
    with ref show ?thesis by simp
  next
    case (Some rf)
    with ref obtain rgb where r: "read_rgb e rf = Inr rgb" "i_reference_image inp = Some rgb"
      by auto
    from read_rgb_Inr [OF r(1)] r(2) Some show ?thesis by auto
  qed
  have c3: "(\<forall>im md r. convert e im md = Inr r \<longrightarrow> mode_of r = md) \<longrightarrow>
          mode_of (i_image inp) = ''RGB'' \<and>
          (\<forall>rgb. i_reference_image inp = Some rgb \<longrightarrow> mode_of rgb = ''RGB'')"
  proof (intro impI conjI allI)
    assume k: "\<forall>im md r. convert e im md = Inr r \<longrightarrow> mode_of r = md"
    from c1 k show "mode_of (i_image inp) = ''RGB''" by blast
    fix rgb assume s: "i_reference_image inp = Some rgb"
    show "mode_of rgb = ''RGB''"
    proof (cases "r_reference_image req")
      case None
      with c2 s show ?thesis by simp
    next
      case (Some rf)
      with c2 s obtain im where "convert e im ''RGB'' = Inr rgb" by auto
      with k show ?thesis by blast
    qed
  qed
  from c1 c2 c3 show "(\<exists>bs im. upload_read e (r_image req) = Inr bs \<and> Image_open e bs = Inr im \<and>
              convert e im ''RGB'' = Inr (i_image inp))
     \<and> (case r_reference_image req of
          None \<Rightarrow> i_reference_image inp = None
        | Some rf \<Rightarrow>
            \<exists>bs im rgb. upload_read e rf = Inr bs \<and> Image_open e bs = Inr im \<and>
              convert e im ''RGB'' = Inr rgb \<and> i_reference_image inp = Some rgb)
     \<and> ((\<forall>im md r. convert e im md = Inr r \<longrightarrow> mode_of r = md) \<longrightarrow>
          mode_of (i_image inp) = ''RGB'' \<and>
          (\<forall>rgb. i_reference_image inp = Some rgb \<longrightarrow> mode_of rgb = ''RGB''))"
    by (intro conjI)
qed

theorem uploads_converted_to_rgb_witness:
  "fst (i_image (hd (model_calls (edit_image stub_env stub_loaded stub_reference_request)))) = ''RGB''
   \<and> i_reference_image (hd (model_calls (edit_image stub_env stub_loaded stub_reference_request)))
       = Some (''RGB'', [9])
   \<and> (\<exists>bs im rgb. upload_read stub_env [9] = Inr bs \<and> Image_open stub_env bs = Inr im \<and>
         convert stub_env im ''RGB'' = Inr rgb \<and>
         i_reference_image (hd (model_calls (edit_image stub_env stub_loaded stub_reference_request)))
           = Some rgb)"
proof -
  have i: "hd (model_calls (edit_image stub_env stub_loaded stub_reference_request))
     \<in> set (model_calls (edit_image stub_env stub_loaded stub_reference_request))"
    using stub_reference_request_calls by (rule hd_in_set)
  have r: "r_reference_image stub_reference_request = Some [9]"
    by (simp add: stub_reference_request_def)
  note a = uploads_converted_to_rgb [of stub_env stub_loaded stub_reference_request fst,
      THEN bspec, OF i]
  from a [THEN conjunct2, THEN conjunct2, THEN mp, OF stub_convert_mode]
  have m: "fst (i_image (hd (model_calls (edit_image stub_env stub_loaded stub_reference_request)))) = ''RGB''"
    by simp
  from a [THEN conjunct2, THEN conjunct1] r
  have x: "\<exists>bs im rgb. upload_read stub_env [9] = Inr bs \<and> Image_open stub_env bs = Inr im \<and>
         convert stub_env im ''RGB'' = Inr rgb \<and>
         i_reference_image (hd (model_calls (edit_image stub_env stub_loaded stub_reference_request)))
           = Some rgb"
    by simp
  from m x stub_reference_request_reference show ?thesis by (intro conjI)
qed

section \<open>Defaults of the form fields\<close>

text \<open>
  C10. For a form bound to the handler's parameters, in every call of the pipeline: when
  \<^verbatim>\<open>prompt\<close> was omitted the parameter is the empty string and the pipeline receives the
  default prompt of the edit type; when \<^verbatim>\<open>negative_prompt\<close> was omitted it receives the
  empty string; when \<^verbatim>\<open>num_inference_steps\<close> was omitted it receives 50; when
  \<^verbatim>\<open>true_cfg_scale\<close> was omitted it receives 4.0.
\<close>

theorem form_field_defaults:
  "bind_params form = Inr req \<Longrightarrow>
     \<forall>inp \<in> set (model_calls (edit_image e st req)).
       (f_prompt form = None \<longrightarrow>
          r_prompt req = [] \<and> i_prompt inp = get_prompt_for_edit_type (r_edit_type req))
       \<and> (f_negative_prompt form = None \<longrightarrow> i_negative_prompt inp = [])
       \<and> (f_num_inference_steps form = None \<longrightarrow> i_num_inference_steps inp = 50)
       \<and> (f_true_cfg_scale form = None \<longrightarrow> i_true_cfg_scale inp = 0x4010000000000000)"
proof
  fix inp
  assume b: "bind_params form = Inr req"
    and "inp \<in> set (model_calls (edit_image e st req))"
  then have p: "prepare_inputs e st req = Inr inp" by (simp add: model_calls_cases)
  from bind_params_Inr [OF b] prepare_inputs_prompt [OF p] prepare_inputs_passthrough [OF p]
  show "(f_prompt form = None \<longrightarrow>
          r_prompt req = [] \<and> i_prompt inp = get_prompt_for_edit_type (r_edit_type req))
       \<and> (f_negative_prompt form = None \<longrightarrow> i_negative_prompt inp = [])
       \<and> (f_num_inference_steps form = None \<longrightarrow> i_num_inference_steps inp = 50)
       \<and> (f_true_cfg_scale form = None \<longrightarrow> i_true_cfg_scale inp = 0x4010000000000000)"
    by simp
qed

theorem form_field_defaults_witness:
  "bind_params stub_form = Inr stub_request
   \<and> i_prompt (hd (model_calls (edit_image stub_env stub_loaded stub_request))) =
       get_prompt_for_edit_type ''enhance''
   \<and> i_negative_prompt (hd (model_calls (edit_image stub_env stub_loaded stub_request))) = []
   \<and> i_num_inference_steps (hd (model_calls (edit_image stub_env stub_loaded stub_request))) = 50
   \<and> i_true_cfg_scale (hd (model_calls (edit_image stub_env stub_loaded stub_request))) =
       0x4010000000000000"
proof -
  have i: "hd (model_calls (edit_image stub_env stub_loaded stub_request))
     \<in> set (model_calls (edit_image stub_env stub_loaded stub_request))"
    using stub_request_calls by (rule hd_in_set)
  have f: "f_prompt stub_form = None" "f_negative_prompt stub_form = None"
    "f_num_inference_steps stub_form = None" "f_true_cfg_scale stub_form = None"
    by (simp_all add: stub_form_def)
  have e: "r_edit_type stub_request = ''enhance''" by (simp add: stub_request_def)
  from form_field_defaults [OF stub_bind, of stub_env stub_loaded, THEN bspec, OF i] f e stub_bind
  show ?thesis by simp
qed

end
